theory Spec2Isabelle
  imports Main "HOL-Library.AList"
begin

section \<open>Values and dictionaries\<close>

text \<open>
  \<^verbatim>\<open>enforce/settings.py\<close> is dynamically typed: the options given to \<^verbatim>\<open>config\<close> are
  a \<^verbatim>\<open>Dict[str, Any]\<close>, and whatever value an option carries is stored in the global
  settings object as it is. The values that can occur are modelled by one datatype. A
  dictionary is an association list in insertion order (the order in which Python iterates
  over it); \<open>map_of\<close> is the lookup, \<open>AList.update\<close> the item assignment (the value of an
  existing key is replaced in place, a new key is appended) and \<open>AList.delete\<close> the
  \<^verbatim>\<open>del\<close> statement.
\<close>

datatype ModeChoices = invariant | covariant | contravariant | bivariant

datatype pyval =
    PNone
  | PBool bool
  | PInt int
  | PStr string
  | PMode ModeChoices
  | PDict "(string \<times> pyval) list"

type_synonym dict = "(string \<times> pyval) list"

text \<open>
  The exceptions the module can raise. The four \<^verbatim>\<open>KeyError\<close>s that \<^verbatim>\<open>apply_config\<close>
  raises itself are told apart by their message; \<open>KeyError k\<close> is the plain
  \<^verbatim>\<open>KeyError\<close> of a subscript with the missing key \<open>k\<close>. \<open>NotAMapping\<close> stands for the
  \<^verbatim>\<open>AttributeError\<close> or \<^verbatim>\<open>TypeError\<close> that Python raises when \<^verbatim>\<open>.items()\<close>,
  \<^verbatim>\<open>.get()\<close>, \<^verbatim>\<open>.update()\<close>, \<^verbatim>\<open>.clear()\<close> or an item assignment is applied to a value
  that is not a dict; \<open>Unhashable\<close> is the \<^verbatim>\<open>TypeError\<close> of an enum lookup with a dict.
\<close>

datatype error =
    KeyError string
  | ReservedGroup
  | UnknownGroupOption string
  | InvalidMode
  | UnknownOption string
  | NotAMapping
  | Unhashable

text \<open>Python's truth value of an object; a member of a plain \<^verbatim>\<open>Enum\<close> is always true.\<close>

fun truthy :: "pyval \<Rightarrow> bool" where
  "truthy PNone = False"
| "truthy (PBool b) = b"
| "truthy (PInt i) = (i \<noteq> 0)"
| "truthy (PStr s) = (s \<noteq> [])"
| "truthy (PMode m) = True"
| "truthy (PDict d) = (d \<noteq> [])"

text \<open>\<^verbatim>\<open>d.update(other)\<close>: every item of \<open>other\<close> is assigned in \<open>d\<close>, in order.\<close>

definition dict_update :: "dict \<Rightarrow> dict \<Rightarrow> dict" where
  "dict_update d other = fold (\<lambda>(k, v). AList.update k v) other d"

section \<open>The global settings object\<close>

text \<open>
  \<^verbatim>\<open>GlobalSettingsObject\<close> stores everything in its \<^verbatim>\<open>__dict__\<close>, so it is a dictionary
  from attribute names to values to which keys can be added and from which they can be
  deleted.
\<close>

type_synonym GlobalSettingsObject = dict

definition GlobalSettingsObject_init :: GlobalSettingsObject where
  "GlobalSettingsObject_init =
     [(''enabled'', PBool True), (''default'', PBool True),
      (''mode'', PMode invariant), (''groups'', PDict [])]"

definition getitem :: "GlobalSettingsObject \<Rightarrow> string \<Rightarrow> error + pyval" where
  "getitem g item = (case map_of g item of None \<Rightarrow> Inl (KeyError item) | Some v \<Rightarrow> Inr v)"

definition setitem :: "GlobalSettingsObject \<Rightarrow> string \<Rightarrow> pyval \<Rightarrow> GlobalSettingsObject" where
  "setitem g key v = AList.update key v g"

definition delitem :: "GlobalSettingsObject \<Rightarrow> string \<Rightarrow> error + GlobalSettingsObject" where
  "delitem g key =
     (case map_of g key of None \<Rightarrow> Inl (KeyError key) | Some v \<Rightarrow> Inr (AList.delete key g))"

definition iter :: "GlobalSettingsObject \<Rightarrow> string list" where
  "iter g = map fst g"

definition len :: "GlobalSettingsObject \<Rightarrow> nat" where
  "len g = length g"

text \<open>
  \<^verbatim>\<open>_GLOBAL_SETTINGS['groups']\<close> followed by a dict operation: the subscript raises
  when the key is missing, the operation when the value is not a dict.
\<close>

definition groups_of :: "GlobalSettingsObject \<Rightarrow> error + dict" where
  "groups_of g =
     (case getitem g ''groups'' of
        Inl e \<Rightarrow> Inl e
      | Inr (PDict d) \<Rightarrow> Inr d
      | Inr _ \<Rightarrow> Inl NotAMapping)"

section \<open>The Settings view\<close>

record Settings =
  group :: string
  priv_enabled :: "bool option"

text \<open>\<^verbatim>\<open>self.group = group or 'default'\<close>: \<^verbatim>\<open>None\<close> and the empty string are both false.\<close>

definition Settings_init :: "bool option \<Rightarrow> string option \<Rightarrow> Settings" where
  "Settings_init en grp =
     \<lparr> group = (case grp of None \<Rightarrow> ''default'' | Some s \<Rightarrow> if s = [] then ''default'' else s),
       priv_enabled = en \<rparr>"

definition Settings_enabled :: "Settings \<Rightarrow> GlobalSettingsObject \<Rightarrow> error + pyval" where
  "Settings_enabled self g =
     (case getitem g ''enabled'' of
        Inl e \<Rightarrow> Inl e
      | Inr en \<Rightarrow>
          if \<not> truthy en then Inr (PBool False)
          else (case priv_enabled self of
                  None \<Rightarrow>
                    (case groups_of g of
                       Inl e \<Rightarrow> Inl e
                     | Inr gs \<Rightarrow>
                         (case map_of gs (group self) of
                            None \<Rightarrow> Inr (PBool False)
                          | Some v \<Rightarrow> Inr v))
                | Some b \<Rightarrow> Inr (PBool b)))"

text \<open>
  The setter assigns the attribute of the instance. It is written over the pair of the
  instance and the global settings object, so that what it leaves alone can be stated.
\<close>

definition Settings_enabled_setter ::
  "bool \<Rightarrow> Settings \<times> GlobalSettingsObject \<Rightarrow> Settings \<times> GlobalSettingsObject" where
  "Settings_enabled_setter v = (\<lambda>(self, g). (self\<lparr>priv_enabled := Some v\<rparr>, g))"

definition Settings_mode :: "Settings \<Rightarrow> GlobalSettingsObject \<Rightarrow> error + pyval" where
  "Settings_mode self g =
     (case getitem g ''mode'' of
        Inl e \<Rightarrow> Inl e
      | Inr m \<Rightarrow> Inr (if truthy m then m else PMode invariant))"

definition Settings_covariant :: "Settings \<Rightarrow> GlobalSettingsObject \<Rightarrow> error + bool" where
  "Settings_covariant self g =
     (case getitem g ''mode'' of
        Inl e \<Rightarrow> Inl e
      | Inr m \<Rightarrow> Inr (m = PMode covariant \<or> m = PMode bivariant))"

definition Settings_contravariant :: "Settings \<Rightarrow> GlobalSettingsObject \<Rightarrow> error + bool" where
  "Settings_contravariant self g =
     (case getitem g ''mode'' of
        Inl e \<Rightarrow> Inl e
      | Inr m \<Rightarrow> Inr (m = PMode contravariant \<or> m = PMode bivariant))"

definition Settings_bool :: "Settings \<Rightarrow> GlobalSettingsObject \<Rightarrow> error + bool" where
  "Settings_bool self g =
     (case Settings_enabled self g of Inl e \<Rightarrow> Inl e | Inr v \<Rightarrow> Inr (truthy v))"

section \<open>Parsing a configuration update\<close>

text \<open>
  Modelled from the spec: \<^verbatim>\<open>merge_dictionaries\<close> is imported from \<^verbatim>\<open>enforce/utils.py\<close>,
  which is not among the sources. The specification (4.1, 4.2) gives its contract: for each
  key of the defaults, the default is copied when the update omits the key, the merge
  recurses when both values are mappings, and otherwise the value of the update is taken
  as it is (\<^verbatim>\<open>None\<close> included); neither argument is changed. A key of the update that the
  defaults do not have is not validated by the merge but detected downstream by the
  applier, so it is carried over into the result, after the keys of the defaults.
\<close>

fun merge_dictionaries :: "dict \<Rightarrow> dict \<Rightarrow> dict"
  and merge_defaults :: "dict \<Rightarrow> dict \<Rightarrow> dict"
  and merge_value :: "pyval \<Rightarrow> pyval \<Rightarrow> pyval" where
  "merge_dictionaries defaults upd =
     merge_defaults defaults upd @ filter (\<lambda>(k, v). map_of defaults k = None) upd"
| "merge_defaults [] upd = []"
| "merge_defaults ((k, dv) # ds) upd =
     (k, case map_of upd k of None \<Rightarrow> dv | Some uv \<Rightarrow> merge_value dv uv) # merge_defaults ds upd"
| "merge_value (PDict d) (PDict u) = PDict (merge_dictionaries d u)"
| "merge_value dv uv = uv"

definition default_options :: dict where
  "default_options =
     [(''enabled'', PNone),
      (''groups'', PDict [(''set'', PDict []),
                          (''disable_previous'', PBool False),
                          (''enable_previous'', PBool False),
                          (''clear_previous'', PBool False),
                          (''default'', PNone)]),
      (''mode'', PNone)]"

definition parse_config :: "dict \<Rightarrow> dict" where
  "parse_config options = merge_dictionaries default_options options"

section \<open>Applying a configuration update\<close>

text \<open>
  A function that changes the global settings object returns the new object, or the
  exception it raised together with the object as it was at that moment.
\<close>

type_synonym outcome = "error \<times> GlobalSettingsObject + GlobalSettingsObject"

text \<open>
  \<^verbatim>\<open>reset_config\<close>: the keys that are not among the default values are collected and
  deleted, the default values that are not \<^verbatim>\<open>None\<close> are assigned, and the dictionary
  of groups is emptied in place.
\<close>

definition default_values :: dict where
  "default_values =
     [(''enabled'', PBool True), (''default'', PBool True),
      (''mode'', PMode invariant), (''groups'', PNone)]"

definition keys_to_remove :: "GlobalSettingsObject \<Rightarrow> string list" where
  "keys_to_remove g = filter (\<lambda>key. map_of default_values key = None) (iter g)"

definition reset_config :: "GlobalSettingsObject \<Rightarrow> outcome" where
  "reset_config g =
     (let g1 = fold AList.delete (keys_to_remove g) g;
          g2 = fold (\<lambda>(key, v) h. if v \<noteq> PNone then setitem h key v else h) default_values g1
      in case groups_of g2 of
           Inl e \<Rightarrow> Inl (e, g2)
         | Inr gs \<Rightarrow> Inr (setitem g2 ''groups'' (PDict [])))"

text \<open>The names of the members of the enum, and \<^verbatim>\<open>ModeChoices[value]\<close>, the lookup by name.\<close>

fun ModeChoices_name :: "ModeChoices \<Rightarrow> string" where
  "ModeChoices_name invariant = ''invariant''"
| "ModeChoices_name covariant = ''covariant''"
| "ModeChoices_name contravariant = ''contravariant''"
| "ModeChoices_name bivariant = ''bivariant''"

fun ModeChoices_getitem :: "pyval \<Rightarrow> error + ModeChoices" where
  "ModeChoices_getitem (PStr s) =
     (if s = ''invariant'' then Inr invariant
      else if s = ''covariant'' then Inr covariant
      else if s = ''contravariant'' then Inr contravariant
      else if s = ''bivariant'' then Inr bivariant
      else Inl (KeyError s))"
| "ModeChoices_getitem (PDict d) = Inl Unhashable"
| "ModeChoices_getitem v = Inl (KeyError [])"

text \<open>
  The loop over the items of \<^verbatim>\<open>'set'\<close>, which fills \<^verbatim>\<open>group_update\<close>: the name
  \<^verbatim>\<open>'default'\<close> is refused before the status is looked at.
\<close>

fun set_items :: "dict \<Rightarrow> dict \<Rightarrow> error + dict" where
  "set_items [] group_upd = Inr group_upd"
| "set_items ((group_name, group_status) # rest) group_upd =
     (if group_name = ''default'' then Inl ReservedGroup
      else set_items rest
             (if group_status \<noteq> PNone then AList.update group_name group_status group_upd
              else group_upd))"

text \<open>
  The loop over the items of the \<^verbatim>\<open>'groups'\<close> option. It collects \<^verbatim>\<open>group_update\<close>
  and \<^verbatim>\<open>previous_update\<close> and assigns the global \<^verbatim>\<open>'default'\<close> at once.
\<close>

fun groups_items ::
  "dict \<Rightarrow> dict \<times> string \<times> GlobalSettingsObject \<Rightarrow>
   error \<times> GlobalSettingsObject + dict \<times> string \<times> GlobalSettingsObject" where
  "groups_items [] acc = Inr acc"
| "groups_items ((k, v) # rest) (group_upd, previous_update, g) =
     (if k = ''disable_previous'' then
        groups_items rest
          (group_upd, if truthy v then previous_update @ ''d'' else previous_update, g)
      else if k = ''enable_previous'' then
        groups_items rest
          (group_upd, if truthy v then previous_update @ ''e'' else previous_update, g)
      else if k = ''clear_previous'' then
        groups_items rest
          (group_upd, if truthy v then previous_update @ ''c'' else previous_update, g)
      else if k = ''default'' then
        groups_items rest
          (group_upd, previous_update, if v \<noteq> PNone then setitem g ''default'' v else g)
      else if k = ''set'' then
        (case v of
           PDict items \<Rightarrow>
             (case set_items items group_upd of
                Inl e \<Rightarrow> Inl (e, g)
              | Inr group_upd' \<Rightarrow> groups_items rest (group_upd', previous_update, g))
         | _ \<Rightarrow> Inl (NotAMapping, g))
      else Inl (UnknownGroupOption k, g))"

text \<open>The bulk changes of the dictionary of groups.\<close>

definition set_all :: "bool \<Rightarrow> dict \<Rightarrow> dict" where
  "set_all b gs = fold (\<lambda>group_name d. AList.update group_name (PBool b) d) (map fst gs) gs"

definition apply_previous :: "string \<Rightarrow> GlobalSettingsObject \<Rightarrow> outcome" where
  "apply_previous previous_update g =
     (if previous_update \<noteq> [] then
        (case (if CHR ''d'' \<in> set previous_update
               then (case groups_of g of Inl e \<Rightarrow> Inl (e, g)
                     | Inr gs \<Rightarrow> Inr (setitem g ''groups'' (PDict (set_all False gs))))
               else Inr g) of
           Inl e \<Rightarrow> Inl e
         | Inr g1 \<Rightarrow>
             (case (if CHR ''e'' \<in> set previous_update
                    then (case groups_of g1 of Inl e \<Rightarrow> Inl (e, g1)
                          | Inr gs \<Rightarrow> Inr (setitem g1 ''groups'' (PDict (set_all True gs))))
                    else Inr g1) of
                Inl e \<Rightarrow> Inl e
              | Inr g2 \<Rightarrow>
                  (if CHR ''c'' \<in> set previous_update
                   then (case groups_of g2 of Inl e \<Rightarrow> Inl (e, g2)
                         | Inr gs \<Rightarrow> Inr (setitem g2 ''groups'' (PDict [])))
                   else Inr g2)))
      else Inr g)"

definition apply_groups :: "pyval \<Rightarrow> GlobalSettingsObject \<Rightarrow> outcome" where
  "apply_groups v g =
     (case v of
        PDict items \<Rightarrow>
          (case groups_items items ([], [], g) of
             Inl e \<Rightarrow> Inl e
           | Inr (group_upd, previous_update, g1) \<Rightarrow>
               (case apply_previous previous_update g1 of
                  Inl e \<Rightarrow> Inl e
                | Inr g2 \<Rightarrow>
                    (case groups_of g2 of
                       Inl e \<Rightarrow> Inl (e, g2)
                     | Inr gs \<Rightarrow> Inr (setitem g2 ''groups'' (PDict (dict_update gs group_upd))))))
      | _ \<Rightarrow> Inl (NotAMapping, g))"

text \<open>The loop over the items of the options.\<close>

fun apply_items :: "dict \<Rightarrow> GlobalSettingsObject \<Rightarrow> outcome" where
  "apply_items [] g = Inr g"
| "apply_items ((key, v) # rest) g =
     (if key = ''enabled'' then
        apply_items rest (if v \<noteq> PNone then setitem g ''enabled'' v else g)
      else if key = ''groups'' then
        (case apply_groups v g of Inl e \<Rightarrow> Inl e | Inr g' \<Rightarrow> apply_items rest g')
      else if key = ''mode'' then
        (if v \<noteq> PNone then
           (case ModeChoices_getitem v of
              Inl (KeyError n) \<Rightarrow> Inl (InvalidMode, g)
            | Inl e \<Rightarrow> Inl (e, g)
            | Inr m \<Rightarrow> apply_items rest (setitem g ''mode'' (PMode m)))
         else apply_items rest g)
      else Inl (UnknownOption key, g))"

definition apply_config :: "dict option \<Rightarrow> bool \<Rightarrow> GlobalSettingsObject \<Rightarrow> outcome" where
  "apply_config options reset g =
     (if reset then reset_config g
      else (case options of None \<Rightarrow> Inr g | Some items \<Rightarrow> apply_items items g))"

definition config :: "dict \<Rightarrow> bool \<Rightarrow> GlobalSettingsObject \<Rightarrow> outcome" where
  "config options reset g =
     (let parsed_config = (if \<not> reset then Some (parse_config options) else None)
      in apply_config parsed_config reset g)"

section \<open>Facts about the global settings object\<close>

lemma getitem_setitem:
  "getitem (setitem g k v) k' = (if k' = k then Inr v else getitem g k')"
  by (simp add: getitem_def setitem_def update_conv')

lemma setitem_setitem: "setitem (setitem g k a) k b = setitem g k b"
  by (simp add: setitem_def)

lemma setitem_triv: "getitem g k = Inr v \<Longrightarrow> setitem g k v = g"
  by (auto simp: getitem_def setitem_def split: option.splits intro: update_triv)

lemma groups_of_setitem: "groups_of (setitem g ''groups'' (PDict d)) = Inr d"
  by (simp add: groups_of_def getitem_setitem)

lemma groups_of_setitem_other: "k \<noteq> ''groups'' \<Longrightarrow> groups_of (setitem g k v) = groups_of g"
  by (simp add: groups_of_def getitem_setitem)

lemma groups_of_getitem: "groups_of g = Inr gs \<Longrightarrow> getitem g ''groups'' = Inr (PDict gs)"
  by (auto simp: groups_of_def split: sum.splits pyval.splits)

lemma groups_of_init: "groups_of GlobalSettingsObject_init = Inr []"
  by (simp add: groups_of_def getitem_def GlobalSettingsObject_init_def)

section \<open>Facts about parsing\<close>

lemma parse_groups_set:
  "parse_config [(''groups'', PDict [(''set'', PDict st)])] =
     [(''enabled'', PNone),
      (''groups'', PDict [(''set'', PDict st), (''disable_previous'', PBool False),
                          (''enable_previous'', PBool False), (''clear_previous'', PBool False),
                          (''default'', PNone)]),
      (''mode'', PNone)]"
  by (simp add: parse_config_def default_options_def)

lemma parse_mode:
  "parse_config [(''mode'', v)] =
     [(''enabled'', PNone),
      (''groups'', PDict [(''set'', PDict []), (''disable_previous'', PBool False),
                          (''enable_previous'', PBool False), (''clear_previous'', PBool False),
                          (''default'', PNone)]),
      (''mode'', merge_value PNone v)]"
  by (simp add: parse_config_def default_options_def)

lemma apply_groups_default_shape:
  "groups_of g = Inr gs \<Longrightarrow>
   apply_groups (PDict [(''set'', PDict []), (''disable_previous'', PBool False),
                        (''enable_previous'', PBool False), (''clear_previous'', PBool False),
                        (''default'', PNone)]) g = Inr g"
  by (simp add: apply_groups_def apply_previous_def dict_update_def setitem_triv groups_of_getitem)

section \<open>The Settings view\<close>

text \<open>
  C5. Whenever the global \<^verbatim>\<open>enabled\<close> flag is false, reading \<^verbatim>\<open>Settings.enabled\<close>
  returns \<^verbatim>\<open>False\<close>, for every instance: whatever its group, whatever the groups and the
  default of the global settings hold, and whether or not the instance has a local
  override. (It holds for every false value of the flag, \<^verbatim>\<open>False\<close> among them.)
\<close>

theorem kill_switch_dominates:
  "getitem g ''enabled'' = Inr en \<Longrightarrow> \<not> truthy en \<Longrightarrow> Settings_enabled self g = Inr (PBool False)"
  by (simp add: Settings_enabled_def)

theorem kill_switch_dominates_witness:
  "getitem [(''enabled'', PBool False), (''default'', PBool True), (''mode'', PMode invariant),
            (''groups'', PDict [(''g'', PBool True)])] ''enabled'' = Inr (PBool False)
   \<and> \<not> truthy (PBool False)
   \<and> Settings_enabled \<lparr> group = ''g'', priv_enabled = Some True \<rparr>
        [(''enabled'', PBool False), (''default'', PBool True), (''mode'', PMode invariant),
         (''groups'', PDict [(''g'', PBool True)])] = Inr (PBool False)"
  using kill_switch_dominates [of "[(''enabled'', PBool False), (''default'', PBool True),
      (''mode'', PMode invariant), (''groups'', PDict [(''g'', PBool True)])]" "PBool False"
      "\<lparr> group = ''g'', priv_enabled = Some True \<rparr>"]
  by (simp add: getitem_def)

text \<open>
  C1, as the specification states it, fails: with no local override and the global flag
  true, a group that has no entry in \<^verbatim>\<open>groups\<close> does not read the global \<^verbatim>\<open>default\<close>.
  In the initial global settings (\<^verbatim>\<open>default\<close> is \<^verbatim>\<open>True\<close>, no group has an entry) the
  instance \<^verbatim>\<open>Settings(group='g')\<close> reads \<^verbatim>\<open>False\<close>.
\<close>

theorem enabled_falls_back_to_default_counterexample:
  "priv_enabled (Settings_init None (Some ''g'')) = None
   \<and> getitem GlobalSettingsObject_init ''enabled'' = Inr (PBool True)
   \<and> groups_of GlobalSettingsObject_init = Inr []
   \<and> map_of ([] :: dict) (group (Settings_init None (Some ''g''))) = None
   \<and> getitem GlobalSettingsObject_init ''default'' = Inr (PBool True)
   \<and> Settings_enabled (Settings_init None (Some ''g'')) GlobalSettingsObject_init
        = Inr (PBool False)
   \<and> Settings_enabled (Settings_init None (Some ''g'')) GlobalSettingsObject_init
        \<noteq> getitem GlobalSettingsObject_init ''default''"
  by (simp add: Settings_enabled_def Settings_init_def GlobalSettingsObject_init_def getitem_def
      groups_of_def)

text \<open>
  C1, amended. For every instance without a local override, when the global \<^verbatim>\<open>enabled\<close>
  flag is true, reading \<^verbatim>\<open>Settings.enabled\<close> returns the entry of the instance's group in
  \<^verbatim>\<open>groups\<close> when the group has one, and \<^verbatim>\<open>False\<close> when a group other than
  \<^verbatim>\<open>'default'\<close> has none.
\<close>

theorem enabled_without_override:
  assumes "priv_enabled self = None" and "getitem g ''enabled'' = Inr en" and "truthy en"
    and "groups_of g = Inr gs"
  shows "(\<forall>v. map_of gs (group self) = Some v \<longrightarrow> Settings_enabled self g = Inr v)
       \<and> (map_of gs (group self) = None \<and> group self \<noteq> ''default'' \<longrightarrow>
            Settings_enabled self g = Inr (PBool False))"
  using assms by (simp add: Settings_enabled_def)

theorem enabled_without_override_witness:
  "priv_enabled (Settings_init None (Some ''h'')) = None
   \<and> getitem [(''enabled'', PBool True), (''default'', PBool True), (''mode'', PMode invariant),
               (''groups'', PDict [(''g'', PBool True)])] ''enabled'' = Inr (PBool True)
   \<and> truthy (PBool True)
   \<and> groups_of [(''enabled'', PBool True), (''default'', PBool True), (''mode'', PMode invariant),
                 (''groups'', PDict [(''g'', PBool True)])] = Inr [(''g'', PBool True)]
   \<and> map_of [(''g'', PBool True)] (group (Settings_init None (Some ''h''))) = None
   \<and> group (Settings_init None (Some ''h'')) \<noteq> ''default''
   \<and> Settings_enabled (Settings_init None (Some ''h''))
        [(''enabled'', PBool True), (''default'', PBool True), (''mode'', PMode invariant),
         (''groups'', PDict [(''g'', PBool True)])] = Inr (PBool False)"
  using enabled_without_override [of "Settings_init None (Some ''h'')"
      "[(''enabled'', PBool True), (''default'', PBool True), (''mode'', PMode invariant),
        (''groups'', PDict [(''g'', PBool True)])]" "PBool True" "[(''g'', PBool True)]"]
  by (simp add: Settings_init_def getitem_def groups_of_def)

text \<open>
  C10. No read accessor of \<^verbatim>\<open>Settings\<close> depends on the global \<^verbatim>\<open>default\<close>: on two
  global settings objects that agree on every key other than \<^verbatim>\<open>'default'\<close>, the reads
  \<^verbatim>\<open>enabled\<close>, \<^verbatim>\<open>mode\<close>, \<^verbatim>\<open>covariant\<close>, \<^verbatim>\<open>contravariant\<close> and the boolean conversion
  of any instance give the same results.
\<close>

theorem reads_ignore_default:
  assumes "\<forall>k. k \<noteq> ''default'' \<longrightarrow> getitem g1 k = getitem g2 k"
  shows "Settings_enabled self g1 = Settings_enabled self g2
       \<and> Settings_mode self g1 = Settings_mode self g2
       \<and> Settings_covariant self g1 = Settings_covariant self g2
       \<and> Settings_contravariant self g1 = Settings_contravariant self g2
       \<and> Settings_bool self g1 = Settings_bool self g2"
proof -
  have e: "getitem g1 ''enabled'' = getitem g2 ''enabled''" using assms by simp
  have m: "getitem g1 ''mode'' = getitem g2 ''mode''" using assms by simp
  have gr: "getitem g1 ''groups'' = getitem g2 ''groups''" using assms by simp
  have go: "groups_of g1 = groups_of g2"
    by (simp add: groups_of_def gr)
  have en: "Settings_enabled self g1 = Settings_enabled self g2"
    unfolding Settings_enabled_def e go by (rule refl)
  show ?thesis
    by (simp add: en Settings_bool_def Settings_mode_def Settings_covariant_def
        Settings_contravariant_def m)
qed

theorem reads_ignore_default_witness:
  "getitem GlobalSettingsObject_init ''default''
        \<noteq> getitem (setitem GlobalSettingsObject_init ''default'' (PBool False)) ''default''
   \<and> getitem GlobalSettingsObject_init ''enabled''
        = getitem (setitem GlobalSettingsObject_init ''default'' (PBool False)) ''enabled''
   \<and> getitem GlobalSettingsObject_init ''groups''
        = getitem (setitem GlobalSettingsObject_init ''default'' (PBool False)) ''groups''
   \<and> getitem GlobalSettingsObject_init ''mode''
        = getitem (setitem GlobalSettingsObject_init ''default'' (PBool False)) ''mode''
   \<and> Settings_enabled (Settings_init None None) GlobalSettingsObject_init
        = Settings_enabled (Settings_init None None)
            (setitem GlobalSettingsObject_init ''default'' (PBool False))
   \<and> Settings_bool (Settings_init None None) GlobalSettingsObject_init
        = Settings_bool (Settings_init None None)
            (setitem GlobalSettingsObject_init ''default'' (PBool False))"
  using reads_ignore_default [of GlobalSettingsObject_init
      "setitem GlobalSettingsObject_init ''default'' (PBool False)" "Settings_init None None"]
  by (simp add: getitem_setitem) (simp add: getitem_def GlobalSettingsObject_init_def)

text \<open>
  C8. Assigning the \<^verbatim>\<open>enabled\<close> property of an instance, or constructing the instance
  with \<^verbatim>\<open>enabled=...\<close>, sets the local override of that instance and leaves the global
  settings object as it is. When the global flag is true the local override outranks the
  state of the group: an instance with override \<open>b\<close> reads \<open>b\<close>, whatever its group and
  whatever the groups hold. So after \<^verbatim>\<open>config({'groups': {'set': {'g': True}}})\<close> the
  instance \<^verbatim>\<open>Settings(enabled=False, group='g')\<close> reads \<^verbatim>\<open>False\<close> and a fresh
  \<^verbatim>\<open>Settings(group='g')\<close> reads \<^verbatim>\<open>True\<close>.
\<close>

theorem local_override_is_local:
  "snd (Settings_enabled_setter v (self, g)) = g
   \<and> fst (Settings_enabled_setter v (self, g)) = self\<lparr>priv_enabled := Some v\<rparr>
   \<and> priv_enabled (Settings_init (Some v) grp) = Some v
   \<and> (priv_enabled s = Some b \<and> getitem h ''enabled'' = Inr fl \<and> truthy fl \<longrightarrow>
        Settings_enabled s h = Inr (PBool b))
   \<and> (getitem h ''enabled'' = Inr fl \<and> truthy fl \<longrightarrow>
        Settings_enabled (fst (Settings_enabled_setter v (self, h))) h = Inr (PBool v))
   \<and> (getitem g ''enabled'' = Inr en \<and> truthy en \<and> groups_of g = Inr gs \<longrightarrow>
        (\<exists>g'. config [(''groups'', PDict [(''set'', PDict [(''g'', PBool True)])])] False g = Inr g'
            \<and> Settings_enabled (Settings_init (Some False) (Some ''g'')) g' = Inr (PBool False)
            \<and> Settings_enabled (Settings_init None (Some ''g'')) g' = Inr (PBool True)))"
  by (simp add: Settings_enabled_setter_def Settings_init_def config_def apply_config_def
      parse_groups_set apply_groups_def apply_previous_def dict_update_def
      Settings_enabled_def getitem_setitem groups_of_setitem update_conv')

theorem local_override_is_local_witness:
  "getitem GlobalSettingsObject_init ''enabled'' = Inr (PBool True) \<and> truthy (PBool True)
   \<and> groups_of GlobalSettingsObject_init = Inr []
   \<and> (\<exists>g'. config [(''groups'', PDict [(''set'', PDict [(''g'', PBool True)])])] False
              GlobalSettingsObject_init = Inr g'
          \<and> Settings_enabled (Settings_init (Some False) (Some ''g'')) g' = Inr (PBool False)
          \<and> Settings_enabled (Settings_init None (Some ''g'')) g' = Inr (PBool True))
   \<and> priv_enabled (Settings_init (Some True) (Some ''g'')) = Some True
   \<and> getitem [(''enabled'', PBool True), (''groups'', PDict [(''g'', PBool False)])] ''enabled''
        = Inr (PBool True)
   \<and> Settings_enabled (Settings_init (Some True) (Some ''g''))
        [(''enabled'', PBool True), (''groups'', PDict [(''g'', PBool False)])] = Inr (PBool True)
   \<and> Settings_enabled (Settings_init None (Some ''g''))
        [(''enabled'', PBool True), (''groups'', PDict [(''g'', PBool False)])] = Inr (PBool False)
   \<and> Settings_enabled
        (fst (Settings_enabled_setter True
           (Settings_init None (Some ''g''),
            [(''enabled'', PBool True), (''groups'', PDict [(''g'', PBool False)])])))
        [(''enabled'', PBool True), (''groups'', PDict [(''g'', PBool False)])] = Inr (PBool True)"
  using local_override_is_local [where v = True and self = "Settings_init None (Some ''g'')"
      and g = GlobalSettingsObject_init and en = "PBool True" and gs = "[]"
      and s = "Settings_init (Some True) (Some ''g'')" and b = True
      and h = "[(''enabled'', PBool True), (''groups'', PDict [(''g'', PBool False)])]"
      and fl = "PBool True"]
  by (simp add: groups_of_init)
     (simp add: getitem_def GlobalSettingsObject_init_def Settings_init_def groups_of_def
        Settings_enabled_def Settings_enabled_setter_def)

section \<open>Rejected updates\<close>

text \<open>
  C4. For every boolean \<open>b\<close>, \<^verbatim>\<open>config({'groups': {'set': {'default': b}}})\<close> raises the
  reserved-group error, and raises it before anything is changed: the global settings
  object, its \<^verbatim>\<open>default\<close> and its \<^verbatim>\<open>groups\<close> included, is as it was.
\<close>

theorem reserved_group_rejected:
  "config [(''groups'', PDict [(''set'', PDict [(''default'', PBool b)])])] False g
     = Inl (ReservedGroup, g)"
  by (simp add: config_def apply_config_def parse_groups_set apply_groups_def)

text \<open>
  C9. The name \<^verbatim>\<open>'default'\<close> is refused before the value is looked at:
  \<^verbatim>\<open>config({'groups': {'set': {'default': None}}})\<close> raises the reserved-group error,
  although for any other group name a \<^verbatim>\<open>None\<close> in \<^verbatim>\<open>'set'\<close> is skipped and changes
  nothing.
\<close>

theorem reserved_group_checked_before_none:
  "config [(''groups'', PDict [(''set'', PDict [(''default'', PNone)])])] False g
     = Inl (ReservedGroup, g)
   \<and> (name \<noteq> ''default'' \<longrightarrow> groups_of g = Inr gs \<longrightarrow>
        config [(''groups'', PDict [(''set'', PDict [(name, PNone)])])] False g = Inr g)"
  by (simp add: config_def apply_config_def parse_groups_set apply_groups_def apply_previous_def
      dict_update_def setitem_triv groups_of_getitem)

theorem reserved_group_checked_before_none_witness:
  "''h'' \<noteq> ''default''
   \<and> groups_of [(''enabled'', PBool True), (''groups'', PDict [(''h'', PBool True)])]
        = Inr [(''h'', PBool True)]
   \<and> config [(''groups'', PDict [(''set'', PDict [(''h'', PNone)])])] False
        [(''enabled'', PBool True), (''groups'', PDict [(''h'', PBool True)])]
        = Inr [(''enabled'', PBool True), (''groups'', PDict [(''h'', PBool True)])]
   \<and> config [(''groups'', PDict [(''set'', PDict [(''default'', PNone)])])] False
        [(''enabled'', PBool True), (''groups'', PDict [(''h'', PBool True)])]
        = Inl (ReservedGroup, [(''enabled'', PBool True), (''groups'', PDict [(''h'', PBool True)])])"
  using reserved_group_checked_before_none [of
      "[(''enabled'', PBool True), (''groups'', PDict [(''h'', PBool True)])]" "''h''"
      "[(''h'', PBool True)]"]
  by (simp add: groups_of_def getitem_def)

text \<open>
  C6. For every string that is not the name of a member of \<^verbatim>\<open>ModeChoices\<close>,
  \<^verbatim>\<open>config({'mode': s})\<close> raises the invalid-mode error and the global settings object,
  its \<^verbatim>\<open>mode\<close> included, is as it was; for the name of a member, that member is stored as
  the global \<^verbatim>\<open>mode\<close>. (The global settings object holds its dictionary of groups, as it
  always does.)
\<close>

theorem mode_by_name:
  "groups_of g = Inr gs \<Longrightarrow>
     (s \<notin> {''invariant'', ''covariant'', ''contravariant'', ''bivariant''} \<longrightarrow>
        config [(''mode'', PStr s)] False g = Inl (InvalidMode, g))
   \<and> config [(''mode'', PStr (ModeChoices_name m))] False g = Inr (setitem g ''mode'' (PMode m))"
  by (cases m) (simp_all add: config_def apply_config_def parse_mode apply_groups_default_shape)

theorem mode_by_name_witness:
  "groups_of GlobalSettingsObject_init = Inr []
   \<and> ''Covariant'' \<notin> {''invariant'', ''covariant'', ''contravariant'', ''bivariant''}
   \<and> config [(''mode'', PStr ''Covariant'')] False GlobalSettingsObject_init
        = Inl (InvalidMode, GlobalSettingsObject_init)
   \<and> config [(''mode'', PStr ''bivariant'')] False GlobalSettingsObject_init
        = Inr [(''enabled'', PBool True), (''default'', PBool True),
               (''mode'', PMode bivariant), (''groups'', PDict [])]"
  using mode_by_name [of GlobalSettingsObject_init "[]" "''Covariant''" bivariant]
  by (simp add: groups_of_init) (simp add: GlobalSettingsObject_init_def setitem_def)

section \<open>Resetting\<close>

lemma map_of_fold_delete:
  "map_of (fold AList.delete ks g) k = (if k \<in> set ks then None else map_of g k)"
  by (induction ks arbitrary: g) (simp_all add: delete_conv')

lemma getitem_fold_delete:
  "getitem (fold AList.delete ks g) k = (if k \<in> set ks then Inl (KeyError k) else getitem g k)"
  by (simp add: getitem_def map_of_fold_delete)

lemma getitem_eq_iff: "getitem g k = getitem h k \<longleftrightarrow> map_of g k = map_of h k"
  by (cases "map_of g k"; cases "map_of h k") (simp_all add: getitem_def)

lemma getitem_eq_map_of: "(\<forall>k. getitem g k = getitem h k) \<longleftrightarrow> map_of g = map_of h"
  by (simp add: getitem_eq_iff fun_eq_iff)

lemma default_values_None:
  "map_of default_values k = None \<longleftrightarrow>
     k \<noteq> ''enabled'' \<and> k \<noteq> ''default'' \<and> k \<noteq> ''mode'' \<and> k \<noteq> ''groups''"
  by (simp add: default_values_def)

lemma keys_to_remove_iff:
  "k \<in> set (keys_to_remove g) \<longleftrightarrow>
     k \<in> fst ` set g \<and> k \<noteq> ''enabled'' \<and> k \<noteq> ''default'' \<and> k \<noteq> ''mode'' \<and> k \<noteq> ''groups''"
  by (simp add: keys_to_remove_def iter_def default_values_None)

lemma reset_config_unfold:
  "reset_config g =
     (let g2 = setitem (setitem (setitem (fold AList.delete (keys_to_remove g) g)
                 ''enabled'' (PBool True)) ''default'' (PBool True)) ''mode'' (PMode invariant)
      in case groups_of g2 of Inl e \<Rightarrow> Inl (e, g2)
         | Inr gs \<Rightarrow> Inr (setitem g2 ''groups'' (PDict [])))"
  by (simp add: reset_config_def default_values_def Let_def)

lemma getitem_missing: "k \<notin> fst ` set g \<Longrightarrow> getitem g k = Inl (KeyError k)"
  using map_of_eq_None_iff [of g k] by (simp add: getitem_def)

lemma groups_of_fold_delete:
  "groups_of (fold AList.delete (keys_to_remove g) g) = groups_of g"
  by (simp add: groups_of_def getitem_fold_delete keys_to_remove_iff)

lemma getitem_init:
  "getitem GlobalSettingsObject_init k =
     (if k = ''enabled'' then Inr (PBool True)
      else if k = ''default'' then Inr (PBool True)
      else if k = ''mode'' then Inr (PMode invariant)
      else if k = ''groups'' then Inr (PDict [])
      else Inl (KeyError k))"
  by (simp add: getitem_def GlobalSettingsObject_init_def)

lemma reset_config_result:
  assumes "groups_of g = Inr gs"
  shows "\<exists>g'. reset_config g = Inr g' \<and> (\<forall>k. getitem g' k = getitem GlobalSettingsObject_init k)"
proof -
  define g1 where "g1 = fold AList.delete (keys_to_remove g) g"
  define g2 where "g2 = setitem (setitem (setitem g1 ''enabled'' (PBool True))
                 ''default'' (PBool True)) ''mode'' (PMode invariant)"
  have go: "groups_of g2 = Inr gs"
    by (simp add: g2_def g1_def groups_of_setitem_other groups_of_fold_delete assms)
  have r: "reset_config g = Inr (setitem g2 ''groups'' (PDict []))"
    by (simp add: reset_config_unfold Let_def go g2_def [symmetric] g1_def [symmetric])
  have g1k: "getitem g1 k = Inl (KeyError k)"
    if "k \<noteq> ''enabled''" "k \<noteq> ''default''" "k \<noteq> ''mode''" "k \<noteq> ''groups''" for k
  proof (cases "k \<in> fst ` set g")
    case True
    with that show ?thesis by (simp add: g1_def getitem_fold_delete keys_to_remove_iff)
  next
    case False
    with that show ?thesis
      by (simp add: g1_def getitem_fold_delete keys_to_remove_iff getitem_missing)
  qed
  have "getitem (setitem g2 ''groups'' (PDict [])) k = getitem GlobalSettingsObject_init k" for k
    by (simp add: getitem_setitem getitem_init g2_def g1k)
  with r show ?thesis by blast
qed

lemma keys_of_lookup:
  assumes "\<forall>k. getitem g k = getitem h k"
  shows "set (iter g) = set (iter h)"
proof -
  have "map_of g = map_of h" using assms by (simp add: getitem_eq_map_of)
  then have "dom (map_of g) = dom (map_of h)" by simp
  then show ?thesis by (simp add: dom_map_of_conv_image_fst iter_def)
qed

lemma iter_init: "set (iter GlobalSettingsObject_init) = {''enabled'', ''default'', ''mode'', ''groups''}"
  by (simp add: iter_def GlobalSettingsObject_init_def)

lemma reset_config_fixpoint:
  assumes "\<forall>k. getitem g k = getitem GlobalSettingsObject_init k"
  shows "reset_config g = Inr g"
proof -
  have keys: "fst ` set g = {''enabled'', ''default'', ''mode'', ''groups''}"
    using keys_of_lookup [OF assms] by (simp add: iter_init) (simp add: iter_def)
  have "k \<notin> set (keys_to_remove g)" for k
    unfolding keys_to_remove_iff keys by blast
  then have st: "keys_to_remove g = []"
    by (cases "keys_to_remove g") auto
  have e: "getitem g ''enabled'' = Inr (PBool True)"
    and d: "getitem g ''default'' = Inr (PBool True)"
    and m: "getitem g ''mode'' = Inr (PMode invariant)"
    and gr: "getitem g ''groups'' = Inr (PDict [])"
    using assms by (simp_all add: getitem_init)
  have go: "groups_of g = Inr []" by (simp add: groups_of_def gr)
  show ?thesis
    by (simp add: reset_config_unfold st setitem_triv e d m gr go)
qed

text \<open>
  C3. For every global settings object, whatever extra keys it has acquired,
  \<^verbatim>\<open>config(reset=True)\<close> leaves it holding exactly \<^verbatim>\<open>enabled\<close> = \<^verbatim>\<open>True\<close>,
  \<^verbatim>\<open>default\<close> = \<^verbatim>\<open>True\<close>, \<^verbatim>\<open>mode\<close> = \<^verbatim>\<open>invariant\<close> and an empty \<^verbatim>\<open>groups\<close>, with
  no other key; the options passed in the same call play no part; and a second
  \<^verbatim>\<open>config(reset=True)\<close> leaves the object as the first one left it. (The global
  settings object holds its dictionary of groups, as it always does: \<^verbatim>\<open>reset_config\<close>
  empties that dictionary in place and does not create it.)
\<close>

theorem reset_restores_defaults:
  assumes "groups_of g = Inr gs"
  shows "\<exists>g'. config options True g = Inr g'
            \<and> (\<forall>k. getitem g' k = getitem GlobalSettingsObject_init k)
            \<and> set (iter g') = {''enabled'', ''default'', ''mode'', ''groups''}
            \<and> config options' True g' = Inr g'"
proof -
  from reset_config_result [OF assms] obtain g' where
    r: "reset_config g = Inr g'" and l: "\<forall>k. getitem g' k = getitem GlobalSettingsObject_init k"
    by blast
  have c: "config opts True h = reset_config h" for opts h
    by (simp add: config_def apply_config_def)
  have k: "set (iter g') = {''enabled'', ''default'', ''mode'', ''groups''}"
    using keys_of_lookup [OF l] by (simp add: iter_init)
  show ?thesis
    using r l k reset_config_fixpoint [OF l] by (simp add: c)
qed

theorem reset_restores_defaults_witness:
  "groups_of [(''extra'', PInt 7), (''groups'', PDict [(''g'', PBool False)]), (''enabled'', PBool False)]
      = Inr [(''g'', PBool False)]
   \<and> (\<exists>g'. config [(''enabled'', PBool False)] True
              [(''extra'', PInt 7), (''groups'', PDict [(''g'', PBool False)]), (''enabled'', PBool False)]
              = Inr g'
          \<and> (\<forall>k. getitem g' k = getitem GlobalSettingsObject_init k)
          \<and> set (iter g') = {''enabled'', ''default'', ''mode'', ''groups''}
          \<and> config [] True g' = Inr g')"
  using reset_restores_defaults [of "[(''extra'', PInt 7), (''groups'', PDict [(''g'', PBool False)]), (''enabled'', PBool False)]"
      "[(''g'', PBool False)]" "[(''enabled'', PBool False)]" "[]"]
  by (simp add: groups_of_def getitem_def)

section \<open>The order of the group flags\<close>

lemma map_of_fold_update_const:
  "map_of (fold (\<lambda>n d. AList.update n v d) ks d) k = (if k \<in> set ks then Some v else map_of d k)"
  by (induction ks arbitrary: d) (simp_all add: update_conv')

lemma map_of_set_all:
  "map_of (set_all b gs) k = map_option (\<lambda>_. PBool b) (map_of gs k)"
proof (cases "map_of gs k")
  case None
  then have "k \<notin> set (map fst gs)" by (simp add: map_of_eq_None_iff)
  with None show ?thesis by (simp add: set_all_def map_of_fold_update_const)
next
  case (Some v)
  then have "k \<in> set (map fst gs)" by (metis map_of_eq_None_iff option.distinct(1) set_map)
  with Some show ?thesis by (simp add: set_all_def map_of_fold_update_const)
qed

lemma parse_groups_flags:
  "parse_config [(''groups'', PDict [(''set'', PDict st), (''disable_previous'', PBool d),
                                     (''enable_previous'', PBool e), (''clear_previous'', PBool c)])] =
     [(''enabled'', PNone),
      (''groups'', PDict [(''set'', PDict st), (''disable_previous'', PBool d),
                          (''enable_previous'', PBool e), (''clear_previous'', PBool c),
                          (''default'', PNone)]),
      (''mode'', PNone)]"
  by (simp add: parse_config_def default_options_def)

lemma parse_groups_set_disable:
  "parse_config [(''groups'', PDict [(''set'', PDict st), (''disable_previous'', PBool d)])] =
     [(''enabled'', PNone),
      (''groups'', PDict [(''set'', PDict st), (''disable_previous'', PBool d),
                          (''enable_previous'', PBool False), (''clear_previous'', PBool False),
                          (''default'', PNone)]),
      (''mode'', PNone)]"
  by (simp add: parse_config_def default_options_def)

lemma parse_groups_clear_enable:
  "parse_config [(''groups'', PDict [(''clear_previous'', PBool c), (''enable_previous'', PBool e)])] =
     [(''enabled'', PNone),
      (''groups'', PDict [(''set'', PDict []), (''disable_previous'', PBool False),
                          (''enable_previous'', PBool e), (''clear_previous'', PBool c),
                          (''default'', PNone)]),
      (''mode'', PNone)]"
  by (simp add: parse_config_def default_options_def)

lemma apply_groups_flags:
  assumes "groups_of g = Inr gs" and "set_items st [] = Inr pending"
  shows "apply_groups (PDict [(''set'', PDict st), (''disable_previous'', PBool d),
                          (''enable_previous'', PBool e), (''clear_previous'', PBool c),
                          (''default'', PNone)]) g
     = Inr (setitem g ''groups'' (PDict (dict_update
              (if c then []
               else if e then set_all True (if d then set_all False gs else gs)
               else if d then set_all False gs else gs) pending)))"
  using assms
  by (cases d; cases e; cases c)
     (simp_all add: apply_groups_def apply_previous_def groups_of_setitem setitem_setitem)

lemma config_apply_items: "config options False g = apply_items (parse_config options) g"
  by (simp add: config_def apply_config_def)

lemma apply_items_groups_only:
  "apply_items [(''enabled'', PNone), (''groups'', v), (''mode'', PNone)] g = apply_groups v g"
  by (simp split: sum.splits)

lemma set_items_fold:
  "''default'' \<notin> fst ` set st \<Longrightarrow>
     set_items st acc =
       Inr (fold (\<lambda>(name, status) d. if status \<noteq> PNone then AList.update name status d else d)
              st acc)"
  by (induction st arbitrary: acc) auto

lemma map_of_fold_set:
  "map_of (fold (\<lambda>(name, status) d. if status \<noteq> PNone then AList.update name status d else d)
             st acc) k =
     (case map_of (rev (filter (\<lambda>(name, status). status \<noteq> PNone) st)) k of
        Some status \<Rightarrow> Some status
      | None \<Rightarrow> map_of acc k)"
  by (induction st arbitrary: acc)
     (auto simp: update_conv' map_add_def split: option.splits)

lemma distinct_fold_set:
  "distinct (map fst acc) \<Longrightarrow>
     distinct (map fst (fold (\<lambda>(name, status) d.
        if status \<noteq> PNone then AList.update name status d else d) st acc))"
  by (induction st arbitrary: acc) (auto simp: distinct_update)

lemma map_of_dict_update:
  "map_of (dict_update d other) k =
     (case map_of (rev other) k of Some v \<Rightarrow> Some v | None \<Rightarrow> map_of d k)"
  unfolding dict_update_def
  by (induction other arbitrary: d)
     (auto simp: update_conv' map_add_def split: option.splits)

lemma map_of_rev_distinct:
  assumes "distinct (map fst xs)"
  shows "map_of (rev xs) = map_of xs"
proof (rule ext)
  fix k
  have dr: "distinct (map fst (rev xs))"
    using assms by (simp add: rev_map [symmetric])
  have "map_of (rev xs) k = Some v \<longleftrightarrow> map_of xs k = Some v" for v
    using assms dr by simp
  then show "map_of (rev xs) k = map_of xs k"
    by (metis not_Some_eq)
qed

lemma pending_lookup:
  assumes "''default'' \<notin> fst ` set st"
  shows "\<exists>pending. set_items st [] = Inr pending
           \<and> (\<forall>d k. map_of (dict_update d pending) k =
                 (case map_of (rev (filter (\<lambda>(name, status). status \<noteq> PNone) st)) k of
                    Some status \<Rightarrow> Some status
                  | None \<Rightarrow> map_of d k))"
proof -
  let ?p = "fold (\<lambda>(name, status) d. if status \<noteq> PNone then AList.update name status d else d)
              st []"
  have d: "distinct (map fst ?p)" by (rule distinct_fold_set) simp
  have "map_of (dict_update d ?p) k =
          (case map_of (rev (filter (\<lambda>(name, status). status \<noteq> PNone) st)) k of
             Some status \<Rightarrow> Some status | None \<Rightarrow> map_of d k)" for d k
    by (simp add: map_of_dict_update map_of_rev_distinct [OF d] map_of_fold_set
        split: option.splits)
  then show ?thesis using set_items_fold [OF assms, of "[]"] by blast
qed

text \<open>
  C2. When \<^verbatim>\<open>config\<close> is given a \<^verbatim>\<open>groups\<close> structure, the bulk flags act on the
  dictionary of groups in the fixed order disable-all, enable-all, clear, and the entries
  of \<^verbatim>\<open>'set'\<close> are merged afterwards: in the resulting dictionary a group named in
  \<^verbatim>\<open>'set'\<close> with a status other than \<^verbatim>\<open>None\<close> has that status, and any other group has
  what the flags left (nothing after clear, else \<^verbatim>\<open>True\<close> after enable-all, else
  \<^verbatim>\<open>False\<close> after disable-all, else its old status). So
  \<^verbatim>\<open>config({'groups': {'set': {'g': True}, 'disable_previous': True}})\<close> leaves group
  \<^verbatim>\<open>'g'\<close> \<^verbatim>\<open>True\<close> and every group that existed before and is not named in \<^verbatim>\<open>'set'\<close>
  \<^verbatim>\<open>False\<close> (and adds no other group), and
  \<^verbatim>\<open>config({'groups': {'clear_previous': True, 'enable_previous': True}})\<close> leaves the
  dictionary of groups empty. (The global settings object holds its dictionary of groups,
  and \<^verbatim>\<open>'set'\<close> does not name the reserved group \<^verbatim>\<open>'default'\<close>.)
\<close>

theorem group_flags_fixed_order:
  assumes "groups_of g = Inr gs" and "''default'' \<notin> fst ` set st"
  shows "(\<exists>pending. set_items st [] = Inr pending
            \<and> config [(''groups'', PDict [(''set'', PDict st), (''disable_previous'', PBool d),
                     (''enable_previous'', PBool e), (''clear_previous'', PBool c)])] False g
                = Inr (setitem g ''groups'' (PDict (dict_update
                    (if c then []
                 else if e then set_all True (if d then set_all False gs else gs)
                 else if d then set_all False gs else gs) pending)))
            \<and> (\<forall>k. map_of (dict_update
                    (if c then []
                 else if e then set_all True (if d then set_all False gs else gs)
                 else if d then set_all False gs else gs) pending) k =
                  (case map_of (rev (filter (\<lambda>(name, status). status \<noteq> PNone) st)) k of
                     Some status \<Rightarrow> Some status
                   | None \<Rightarrow>
                       if c then None
                       else if e then map_option (\<lambda>_. PBool True) (map_of gs k)
                       else if d then map_option (\<lambda>_. PBool False) (map_of gs k)
                       else map_of gs k)))
       \<and> (\<exists>gs'. config [(''groups'', PDict [(''set'', PDict [(''g'', PBool True)]),
                                             (''disable_previous'', PBool True)])] False g
                    = Inr (setitem g ''groups'' (PDict gs'))
                \<and> map_of gs' ''g'' = Some (PBool True)
                \<and> (\<forall>k. k \<noteq> ''g'' \<longrightarrow>
                       map_of gs' k = map_option (\<lambda>_. PBool False) (map_of gs k)))
       \<and> config [(''groups'', PDict [(''clear_previous'', PBool True),
                                     (''enable_previous'', PBool True)])] False g
           = Inr (setitem g ''groups'' (PDict []))"
proof -
  let ?bulk = "(if c then []
                 else if e then set_all True (if d then set_all False gs else gs)
                 else if d then set_all False gs else gs)"
  from pending_lookup [OF assms(2)] obtain pending where
    p: "set_items st [] = Inr pending" and
    l: "\<forall>d k. map_of (dict_update d pending) k =
                 (case map_of (rev (filter (\<lambda>(name, status). status \<noteq> PNone) st)) k of
                    Some status \<Rightarrow> Some status
                  | None \<Rightarrow> map_of d k)"
    by blast
  have 1: "config [(''groups'', PDict [(''set'', PDict st), (''disable_previous'', PBool d),
                     (''enable_previous'', PBool e), (''clear_previous'', PBool c)])] False g
           = Inr (setitem g ''groups'' (PDict (dict_update ?bulk pending)))"
    by (simp only: config_apply_items parse_groups_flags apply_items_groups_only
        apply_groups_flags [OF assms(1) p])
  have bulk: "map_of ?bulk k =
                (if c then None
                 else if e then map_option (\<lambda>_. PBool True) (map_of gs k)
                 else if d then map_option (\<lambda>_. PBool False) (map_of gs k)
                 else map_of gs k)" for k
    by (simp add: map_of_set_all option.map_comp comp_def)
  have lk: "\<forall>k. map_of (dict_update ?bulk pending) k =
                  (case map_of (rev (filter (\<lambda>(name, status). status \<noteq> PNone) st)) k of
                     Some status \<Rightarrow> Some status
                   | None \<Rightarrow>
                       if c then None
                       else if e then map_option (\<lambda>_. PBool True) (map_of gs k)
                       else if d then map_option (\<lambda>_. PBool False) (map_of gs k)
                       else map_of gs k)"
    using l bulk by (simp only:) simp
  have ex1: "\<exists>pending. set_items st [] = Inr pending
            \<and> config [(''groups'', PDict [(''set'', PDict st), (''disable_previous'', PBool d),
                     (''enable_previous'', PBool e), (''clear_previous'', PBool c)])] False g
                = Inr (setitem g ''groups'' (PDict (dict_update ?bulk pending)))
            \<and> (\<forall>k. map_of (dict_update ?bulk pending) k =
                  (case map_of (rev (filter (\<lambda>(name, status). status \<noteq> PNone) st)) k of
                     Some status \<Rightarrow> Some status
                   | None \<Rightarrow>
                       if c then None
                       else if e then map_option (\<lambda>_. PBool True) (map_of gs k)
                       else if d then map_option (\<lambda>_. PBool False) (map_of gs k)
                       else map_of gs k))"
    using p 1 lk by blast
  have s: "set_items [(''g'', PBool True)] [] = Inr [(''g'', PBool True)]" by simp
  have 2: "config [(''groups'', PDict [(''set'', PDict [(''g'', PBool True)]),
                                             (''disable_previous'', PBool True)])] False g
           = Inr (setitem g ''groups'' (PDict (AList.update ''g'' (PBool True) (set_all False gs))))"
    by (simp only: config_apply_items parse_groups_set_disable apply_items_groups_only
        apply_groups_flags [OF assms(1) s]) (simp add: dict_update_def)
  have e: "set_items [] [] = Inr []" by simp
  have 3: "config [(''groups'', PDict [(''clear_previous'', PBool True),
                                     (''enable_previous'', PBool True)])] False g
           = Inr (setitem g ''groups'' (PDict []))"
    by (simp only: config_apply_items parse_groups_clear_enable apply_items_groups_only
        apply_groups_flags [OF assms(1) e]) (simp add: dict_update_def)
  have ex2: "\<exists>gs'. config [(''groups'', PDict [(''set'', PDict [(''g'', PBool True)]),
                                             (''disable_previous'', PBool True)])] False g
                    = Inr (setitem g ''groups'' (PDict gs'))
                \<and> map_of gs' ''g'' = Some (PBool True)
                \<and> (\<forall>k. k \<noteq> ''g'' \<longrightarrow>
                       map_of gs' k = map_option (\<lambda>_. PBool False) (map_of gs k))"
    using 2
    by (intro exI [of _ "AList.update ''g'' (PBool True) (set_all False gs)"])
       (simp add: update_conv' map_of_set_all)
  show ?thesis
    by (rule conjI [OF ex1 conjI [OF ex2 3]])
qed

theorem group_flags_fixed_order_witness:
  "groups_of [(''enabled'', PBool True),
              (''groups'', PDict [(''old'', PBool True), (''kept'', PBool False)])]
      = Inr [(''old'', PBool True), (''kept'', PBool False)]
   \<and> ''default'' \<notin> fst ` set [(''new'', PBool False), (''old'', PNone), (''kept'', PBool True)]
   \<and> config [(''groups'', PDict [(''set'', PDict [(''new'', PBool False), (''old'', PNone),
                                                  (''kept'', PBool True)]),
                 (''disable_previous'', PBool True), (''enable_previous'', PBool False),
                 (''clear_previous'', PBool False)])] False
        [(''enabled'', PBool True),
         (''groups'', PDict [(''old'', PBool True), (''kept'', PBool False)])]
      = Inr [(''enabled'', PBool True),
             (''groups'', PDict [(''old'', PBool False), (''kept'', PBool True),
                                 (''new'', PBool False)])]
   \<and> config [(''groups'', PDict [(''clear_previous'', PBool True),
                                  (''enable_previous'', PBool True)])] False
        [(''enabled'', PBool True),
         (''groups'', PDict [(''old'', PBool True), (''kept'', PBool False)])]
      = Inr [(''enabled'', PBool True), (''groups'', PDict [])]"
  using group_flags_fixed_order [of
      "[(''enabled'', PBool True),
        (''groups'', PDict [(''old'', PBool True), (''kept'', PBool False)])]"
      "[(''old'', PBool True), (''kept'', PBool False)]"
      "[(''new'', PBool False), (''old'', PNone), (''kept'', PBool True)]"
      True False False]
  by (simp add: groups_of_def getitem_def setitem_def dict_update_def set_all_def)

section \<open>Unknown options\<close>

lemma default_options_None:
  "map_of default_options k = None \<longleftrightarrow> k \<notin> {''enabled'', ''groups'', ''mode''}"
  by (simp add: default_options_def)

lemma parse_config_split:
  "parse_config options =
     merge_defaults default_options options
       @ filter (\<lambda>(key, val). key \<notin> {''enabled'', ''groups'', ''mode''}) options"
  by (simp add: parse_config_def default_options_None)

lemma map_of_filter_key:
  "map_of (filter (\<lambda>(key, val). P key) xs) k = (if P k then map_of xs k else None)"
  by (induction xs) auto

lemma merge_defaults_known:
  "merge_defaults default_options
       (filter (\<lambda>(key, val). key \<in> {''enabled'', ''groups'', ''mode''}) options)
     = merge_defaults default_options options"
  by (simp add: default_options_def map_of_filter_key)

lemma parse_config_known:
  "parse_config (filter (\<lambda>(key, val). key \<in> {''enabled'', ''groups'', ''mode''}) options)
     = merge_defaults default_options options"
proof -
  have "filter (\<lambda>(key, val). key \<notin> {''enabled'', ''groups'', ''mode''})
          (filter (\<lambda>(key, val). key \<in> {''enabled'', ''groups'', ''mode''}) options) = []"
    by (induction options) auto
  then show ?thesis
    by (simp only: parse_config_split merge_defaults_known append_Nil2)
qed

lemma keys_merge_defaults: "map fst (merge_defaults ds u) = map fst ds"
  by (induction ds) auto

lemma apply_items_append:
  "apply_items (xs @ ys) g =
     (case apply_items xs g of Inl e \<Rightarrow> Inl e | Inr g' \<Rightarrow> apply_items ys g')"
  by (induction xs g rule: apply_items.induct) (auto split: sum.splits error.splits)

lemma apply_items_unknown_head:
  "ys \<noteq> [] \<Longrightarrow> fst (hd ys) \<notin> {''enabled'', ''groups'', ''mode''} \<Longrightarrow>
     apply_items ys g = Inl (UnknownOption (fst (hd ys)), g)"
  by (cases ys) auto

text \<open>
  C7, as the specification states it, fails: an options structure with a key outside
  \<^verbatim>\<open>enabled\<close>, \<^verbatim>\<open>mode\<close>, \<^verbatim>\<open>groups\<close> does not always raise the unknown-option error.
  The recognised keys are applied first, and \<^verbatim>\<open>config({'mode': 'nope', 'bogus': 1})\<close>
  raises the invalid-mode error before the unknown key is reached.
\<close>

theorem unknown_option_first_error_counterexample:
  "map_of [(''mode'', PStr ''nope''), (''bogus'', PInt 1)] ''bogus'' = Some (PInt 1)
   \<and> ''bogus'' \<notin> {''enabled'', ''mode'', ''groups''}
   \<and> config [(''mode'', PStr ''nope''), (''bogus'', PInt 1)] False GlobalSettingsObject_init
        = Inl (InvalidMode, GlobalSettingsObject_init)
   \<and> InvalidMode \<noteq> UnknownOption ''bogus''"
  by (simp add: config_apply_items parse_config_def default_options_def
      GlobalSettingsObject_init_def apply_groups_def apply_previous_def groups_of_def
      getitem_def setitem_def dict_update_def)

text \<open>
  C7, amended. For every options structure with a top-level key outside \<^verbatim>\<open>enabled\<close>,
  \<^verbatim>\<open>mode\<close>, \<^verbatim>\<open>groups\<close>: the unknown key survives the parse step with its value, the
  call raises an error, and whenever the same call without the unknown keys succeeds,
  that error is the unknown-option error, raised by the applier for the first unknown key
  after the recognised keys have been applied (as in \<^verbatim>\<open>config({'bogus': 1})\<close>).
\<close>

theorem unknown_option_rejected:
  assumes "map_of options k = Some v" and "k \<notin> {''enabled'', ''groups'', ''mode''}"
  shows "map_of (parse_config options) k = Some v
       \<and> (\<exists>e g'. config options False g = Inl (e, g'))
       \<and> (\<forall>g'. config (filter (\<lambda>(key, val). key \<in> {''enabled'', ''groups'', ''mode''}) options)
                  False g = Inr g' \<longrightarrow>
              config options False g =
                Inl (UnknownOption (fst (hd (filter
                       (\<lambda>(key, val). key \<notin> {''enabled'', ''groups'', ''mode''}) options))), g'))"
proof -
  let ?unknown = "filter (\<lambda>(key, val). key \<notin> {''enabled'', ''groups'', ''mode''}) options"
  let ?known = "merge_defaults default_options options"
  have "(k, v) \<in> set options" using assms(1) by (rule map_of_SomeD)
  with assms(2) have mem: "(k, v) \<in> set ?unknown" by simp
  then have ne: "?unknown \<noteq> []" by (metis empty_iff empty_set)
  then have "hd ?unknown \<in> set ?unknown" by (rule hd_in_set)
  then have hd: "fst (hd ?unknown) \<notin> {''enabled'', ''groups'', ''mode''}" by auto
  have "k \<notin> fst ` set ?known"
    using assms(2) keys_merge_defaults [of default_options options]
    by (metis default_options_None map_of_eq_None_iff set_map)
  then have none: "map_of ?known k = None" by (simp add: map_of_eq_None_iff)
  have 1: "map_of (parse_config options) k = Some v"
    using assms by (simp add: parse_config_split map_add_def none map_of_filter_key)
  have c: "config options False g =
       (case apply_items ?known g of Inl e \<Rightarrow> Inl e
        | Inr g' \<Rightarrow> Inl (UnknownOption (fst (hd ?unknown)), g'))"
  proof (cases "apply_items ?known g")
    case (Inl e)
    then show ?thesis
      by (simp add: config_apply_items parse_config_split apply_items_append)
  next
    case (Inr g')
    then show ?thesis
      using apply_items_unknown_head [OF ne hd, of g']
      by (simp add: config_apply_items parse_config_split apply_items_append)
  qed
  have 2: "\<exists>e g'. config options False g = Inl (e, g')"
    unfolding c by (cases "apply_items ?known g") auto
  have 3: "\<forall>g'. config (filter (\<lambda>(key, val). key \<in> {''enabled'', ''groups'', ''mode''}) options)
                  False g = Inr g' \<longrightarrow>
              config options False g = Inl (UnknownOption (fst (hd ?unknown)), g')"
  proof (intro allI impI)
    fix g'
    assume "config (filter (\<lambda>(key, val). key \<in> {''enabled'', ''groups'', ''mode''}) options)
              False g = Inr g'"
    then have "apply_items ?known g = Inr g'"
      by (simp only: config_apply_items parse_config_known)
    then show "config options False g = Inl (UnknownOption (fst (hd ?unknown)), g')"
      by (simp only: c sum.case)
  qed
  show ?thesis by (rule conjI [OF 1 conjI [OF 2 3]])
qed

theorem unknown_option_rejected_witness:
  "map_of [(''enabled'', PBool False), (''bogus'', PInt 1)] ''bogus'' = Some (PInt 1)
   \<and> ''bogus'' \<notin> {''enabled'', ''groups'', ''mode''}
   \<and> config [(''enabled'', PBool False)] False GlobalSettingsObject_init
        = Inr [(''enabled'', PBool False), (''default'', PBool True),
               (''mode'', PMode invariant), (''groups'', PDict [])]
   \<and> config [(''enabled'', PBool False), (''bogus'', PInt 1)] False GlobalSettingsObject_init
        = Inl (UnknownOption ''bogus'',
               [(''enabled'', PBool False), (''default'', PBool True),
                (''mode'', PMode invariant), (''groups'', PDict [])])"
  using unknown_option_rejected [of "[(''enabled'', PBool False), (''bogus'', PInt 1)]" "''bogus''" "PInt 1"
      GlobalSettingsObject_init]
  by (simp add: config_apply_items parse_config_def default_options_def
      GlobalSettingsObject_init_def apply_groups_def apply_previous_def groups_of_def
      getitem_def setitem_def dict_update_def)

end
